theory Spec2Isabelle
  imports Main
begin

section \<open>Python values seen by the Date class\<close>

text \<open>
  The class \<open>Date\<close> of \<open>main.py\<close> tests its three constructor arguments with
  \<open>isinstance(x, int)\<close>. In Python \<open>bool\<close> is a subclass of \<open>int\<close>, so the
  objects that pass this test are the plain integers and the two booleans. Arithmetic
  and comparison read a boolean as 0 or 1 (\<open>int_of\<close>); only formatting without a
  presentation type tells the two apart.
\<close>

datatype pyint = IntObj int | BoolObj bool

text \<open>
  Any Python object: an instance of \<open>int\<close>, or an object of another class (a float,
  a string, \<open>None\<close>, ...), which is all the constructor needs to know of it. The
  string is the object's \<open>repr\<close>.
\<close>

datatype pyobj = IntInst pyint | NonInt string

text \<open>The literals used below: \<open>py_int 3\<close> is \<open>3\<close>, \<open>py_bool True\<close> is \<open>True\<close>.\<close>

abbreviation py_int :: "int \<Rightarrow> pyobj" where
  "py_int i \<equiv> IntInst (IntObj i)"



datatype exn = TypeError string | ValueError string

fun int_of :: "pyint \<Rightarrow> int" where
  "int_of (IntObj i) = i"
| "int_of (BoolObj b) = (if b then 1 else 0)"

fun isinstance_int :: "pyobj \<Rightarrow> bool" where
  "isinstance_int (IntInst _) = True"
| "isinstance_int (NonInt _) = False"

section \<open>Leap years and month lengths\<close>

text \<open>
  \<open>leap_year\<close>, lines 118-128. Python's \<open>%\<close> on integers is the floored remainder,
  which is \<open>mod\<close> on \<open>int\<close>.
\<close>

definition leap_year :: "int \<Rightarrow> bool" where
  "leap_year year =
     (if year mod 4 \<noteq> 0 then False
      else if year mod 100 = 0 \<and> year mod 400 \<noteq> 0 then False
      else True)"

text \<open>
  \<open>days_in_month\<close>, lines 130-146. Membership in a tuple tests with \<open>==\<close>; the
  final \<open>else\<close> raises.
\<close>

definition days_in_month :: "int \<Rightarrow> int \<Rightarrow> exn + int" where
  "days_in_month month year =
     (if month \<in> set [1, 3, 5, 7, 8, 10, 12] then Inr 31
      else if month \<in> set [4, 6, 9, 11] then Inr 30
      else if month = 2 then Inr (if leap_year year then 29 else 28)
      else Inl (ValueError ''Invalid month''))"

section \<open>Text of integers\<close>

text \<open>
  \<open>str(i)\<close> of an integer: its decimal digits, most significant first, after a minus
  sign when it is negative.
\<close>

definition digit_char :: "nat \<Rightarrow> char" where
  "digit_char n = char_of (48 + n)"

fun digits_of :: "nat \<Rightarrow> string" where
  "digits_of n =
     (if n < 10 then [digit_char n]
      else digits_of (n div 10) @ [digit_char (n mod 10)])"

declare digits_of.simps [simp del]

definition str_int :: "int \<Rightarrow> string" where
  "str_int i = (if i < 0 then CHR ''-'' # digits_of (nat (- i)) else digits_of (nat i))"

text \<open>
  The number that a string of decimal digits denotes; it reads \<open>digits_of\<close> back.
\<close>

definition nat_of_digits :: "string \<Rightarrow> nat" where
  "nat_of_digits cs = foldl (\<lambda>a c. 10 * a + (of_char c - 48)) 0 cs"

text \<open>
  A replacement field without a format specification, \<open>{x}\<close>, is \<open>str(x)\<close>:
  decimal for a plain integer, the words \<open>True\<close> and \<open>False\<close> for a boolean.
\<close>

fun format_plain :: "pyint \<Rightarrow> string" where
  "format_plain (IntObj i) = str_int i"
| "format_plain (BoolObj b) = (if b then ''True'' else ''False'')"

text \<open>
  The field \<open>{x:02d}\<close>: presentation type \<open>d\<close> formats any instance of \<open>int\<close> as a
  decimal number, zero-filled after the sign up to a total width of 2.
\<close>

definition format_02d :: "pyint \<Rightarrow> string" where
  "format_02d x =
     (let i = int_of x;
          sg = (if i < 0 then ''-'' else []);
          ds = digits_of (nat \<bar>i\<bar>)
      in sg @ replicate (2 - (length sg + length ds)) CHR ''0'' @ ds)"

section \<open>The Date class\<close>

text \<open>The instance attributes \<open>_day\<close>, \<open>_month\<close>, \<open>_year\<close>.\<close>

record Date =
  self_day :: pyint
  self_month :: pyint
  self_year :: pyint

text \<open>The message of the last \<open>ValueError\<close> of the constructor, an f-string.\<close>

definition day_message :: "pyint \<Rightarrow> pyint \<Rightarrow> pyint \<Rightarrow> string" where
  "day_message d m y =
     ''Day '' @ format_plain d @ '' is not valid for month '' @ format_plain m
       @ '' and year '' @ format_plain y @ ''.''"

text \<open>
  \<open>__init__\<close>, lines 29-43. The chained comparison
  \<open>1 <= day <= self.days_in_month(month, year)\<close> calls \<open>days_in_month\<close> only when
  \<open>1 <= day\<close> holds, and an exception of \<open>days_in_month\<close> would leave the
  constructor as it is.
\<close>

definition Date_init :: "pyobj \<Rightarrow> pyobj \<Rightarrow> pyobj \<Rightarrow> exn + Date" where
  "Date_init day month year =
     (case day of
        NonInt _ \<Rightarrow> Inl (TypeError ''Day cannot be a non-integer number!'')
      | IntInst d \<Rightarrow>
     (case month of
        NonInt _ \<Rightarrow> Inl (TypeError ''Month cannot be a non-integer number!'')
      | IntInst m \<Rightarrow>
     (case year of
        NonInt _ \<Rightarrow> Inl (TypeError ''Year cannot be a non-integer number!'')
      | IntInst y \<Rightarrow>
        if int_of y < 1
          then Inl (ValueError ''There is no such thing as a negative year...'')
        else if \<not> (1 \<le> int_of m \<and> int_of m \<le> 12)
          then Inl (ValueError ''Only 12 months.'')
        else if \<not> 1 \<le> int_of d
          then Inl (ValueError (day_message d m y))
        else
          (case days_in_month (int_of m) (int_of y) of
             Inl e \<Rightarrow> Inl e
           | Inr n \<Rightarrow>
               if \<not> int_of d \<le> n
                 then Inl (ValueError (day_message d m y))
               else Inr \<lparr>self_day = d, self_month = m, self_year = y\<rparr>))))"

text \<open>\<open>__str__\<close>, line 56.\<close>

definition Date_str :: "Date \<Rightarrow> string" where
  "Date_str self =
     format_02d (self_day self) @ ''/'' @ format_02d (self_month self) @ ''/''
       @ format_plain (self_year self)"

text \<open>
  Comparison of two tuples of three instances of \<open>int\<close>: \<open>==\<close> holds when the
  items are pairwise equal; \<open><\<close> and \<open>>\<close> compare the first pair of items that
  differ, and are false when there is none.
\<close>

fun tuple_eq :: "pyint \<times> pyint \<times> pyint \<Rightarrow> pyint \<times> pyint \<times> pyint \<Rightarrow> bool" where
  "tuple_eq (a1, a2, a3) (b1, b2, b3) =
     (int_of a1 = int_of b1 \<and> int_of a2 = int_of b2 \<and> int_of a3 = int_of b3)"

fun tuple_lt :: "pyint \<times> pyint \<times> pyint \<Rightarrow> pyint \<times> pyint \<times> pyint \<Rightarrow> bool" where
  "tuple_lt (a1, a2, a3) (b1, b2, b3) =
     (if int_of a1 \<noteq> int_of b1 then int_of a1 < int_of b1
      else if int_of a2 \<noteq> int_of b2 then int_of a2 < int_of b2
      else if int_of a3 \<noteq> int_of b3 then int_of a3 < int_of b3
      else False)"

fun tuple_gt :: "pyint \<times> pyint \<times> pyint \<Rightarrow> pyint \<times> pyint \<times> pyint \<Rightarrow> bool" where
  "tuple_gt (a1, a2, a3) (b1, b2, b3) =
     (if int_of a1 \<noteq> int_of b1 then int_of a1 > int_of b1
      else if int_of a2 \<noteq> int_of b2 then int_of a2 > int_of b2
      else if int_of a3 \<noteq> int_of b3 then int_of a3 > int_of b3
      else False)"

text \<open>The right operand of a comparison: an instance of \<open>Date\<close>, or any other object.\<close>

datatype operand = DateObj Date | OtherObj pyobj

text \<open>\<open>__eq__\<close>, \<open>__lt__\<close>, \<open>__gt__\<close> and \<open>__le__\<close>, lines 58-116.\<close>

definition Date_eq :: "Date \<Rightarrow> operand \<Rightarrow> bool" where
  "Date_eq self other =
     (case other of
        OtherObj _ \<Rightarrow> False
      | DateObj ot \<Rightarrow>
          tuple_eq (self_day self, self_month self, self_year self)
                   (self_day ot, self_month ot, self_year ot))"

definition Date_lt :: "Date \<Rightarrow> operand \<Rightarrow> bool" where
  "Date_lt self other =
     (case other of
        OtherObj _ \<Rightarrow> False
      | DateObj ot \<Rightarrow>
          tuple_lt (self_year self, self_month self, self_day self)
                   (self_year ot, self_month ot, self_day ot))"

definition Date_gt :: "Date \<Rightarrow> operand \<Rightarrow> bool" where
  "Date_gt self other =
     (case other of
        OtherObj _ \<Rightarrow> False
      | DateObj ot \<Rightarrow>
          tuple_gt (self_year self, self_month self, self_day self)
                   (self_year ot, self_month ot, self_day ot))"

definition Date_le :: "Date \<Rightarrow> operand \<Rightarrow> bool" where
  "Date_le self other =
     (case other of
        OtherObj _ \<Rightarrow> False
      | DateObj ot \<Rightarrow>
          tuple_lt (self_year self, self_month self, self_day self)
                   (self_year ot, self_month ot, self_day ot)
          \<or> tuple_eq (self_year self, self_month self, self_day self)
                      (self_year ot, self_month ot, self_day ot))"

text \<open>
  The slice \<open>xs[:k]\<close>: the first \<open>k\<close> items, a negative \<open>k\<close> counting from the end,
  clipped to the list.
\<close>

definition slice_to :: "'a list \<Rightarrow> int \<Rightarrow> 'a list" where
  "slice_to xs k =
     (if k < 0 then take (nat (int (length xs) + k)) xs else take (nat k) xs)"

text \<open>\<open>day_of_year\<close>, lines 154-156.\<close>

definition day_of_year :: "Date \<Rightarrow> int" where
  "day_of_year self =
     (let days_in_months =
            [31, if leap_year (int_of (self_year self)) then 29 else 28, 31, 30, 31, 30,
             31, 31, 30, 31, 30, 31]
      in sum_list (slice_to days_in_months (int_of (self_month self) - 1))
           + int_of (self_day self))"

section \<open>Leap-year rule\<close>

text \<open>
  C2. For every integer year, with no range restriction, \<open>leap_year\<close> holds exactly when
  the year is divisible by 4 and is either not divisible by 100 or divisible by 400. In
  particular 2000 and 2024 are leap years, 1900 and 2023 are not.
\<close>

theorem leap_year_divisibility:
  "(\<forall>y. leap_year y \<longleftrightarrow> 4 dvd y \<and> (\<not> 100 dvd y \<or> 400 dvd y))
   \<and> leap_year 2000 \<and> \<not> leap_year 1900 \<and> leap_year 2024 \<and> \<not> leap_year 2023"
proof -
  have "leap_year y \<longleftrightarrow> 4 dvd y \<and> (\<not> 100 dvd y \<or> 400 dvd y)" for y
    unfolding leap_year_def by (simp add: dvd_eq_mod_eq_0)
  moreover have "leap_year 2000" "\<not> leap_year 1900" "leap_year 2024" "\<not> leap_year 2023"
    by (simp_all add: leap_year_def)
  ultimately show ?thesis by blast
qed

theorem leap_year_divisibility_witness:
  "leap_year (- 400) \<and> \<not> leap_year (- 100) \<and> leap_year 0 \<and> \<not> leap_year (- 3)
   \<and> leap_year 4 \<and> \<not> leap_year 2100"
proof -
  have r: "leap_year y \<longleftrightarrow> 4 dvd y \<and> (\<not> 100 dvd y \<or> 400 dvd y)" for y
    using leap_year_divisibility by blast
  show ?thesis
    by (simp add: r)
qed

section \<open>Month lengths\<close>

lemma days_in_month_cases:
  "days_in_month month year =
     (if month < 1 \<or> 12 < month then Inl (ValueError ''Invalid month'')
      else if month = 2 then Inr (if leap_year year then 29 else 28)
      else if month \<in> {4, 6, 9, 11} then Inr 30 else Inr 31)"
proof -
  have "month < 1 \<or> 12 < month \<or> month \<in> {1, 2, 3, 4, 5, 6, 7, 8, 9, 10, 11, 12}"
    by (simp; arith)
  then show ?thesis
    unfolding days_in_month_def by auto
qed

lemma days_in_month_Inl:
  "days_in_month month year = Inl e \<longleftrightarrow>
     (month < 1 \<or> 12 < month) \<and> e = ValueError ''Invalid month''"
  by (auto simp: days_in_month_cases)

lemma days_in_month_Inr:
  "days_in_month month year = Inr n \<Longrightarrow> 1 \<le> month \<and> month \<le> 12 \<and> 28 \<le> n \<and> n \<le> 31"
  by (auto simp: days_in_month_cases split: if_splits)

text \<open>
  C3. For every integer month and year, \<open>days_in_month\<close> returns 31 for the months 1, 3,
  5, 7, 8, 10 and 12, 30 for the months 4, 6, 9 and 11, and for month 2 it returns 29 in
  a leap year and 28 otherwise. It raises exactly when the month is outside 1..12, and
  what it raises is a \<open>ValueError\<close>.
\<close>

theorem days_in_month_table:
  "(month \<in> {1, 3, 5, 7, 8, 10, 12} \<longrightarrow> days_in_month month year = Inr 31)
   \<and> (month \<in> {4, 6, 9, 11} \<longrightarrow> days_in_month month year = Inr 30)
   \<and> (month = 2 \<and> leap_year year \<longrightarrow> days_in_month month year = Inr 29)
   \<and> (month = 2 \<and> \<not> leap_year year \<longrightarrow> days_in_month month year = Inr 28)
   \<and> ((\<exists>e. days_in_month month year = Inl e) \<longleftrightarrow> month < 1 \<or> 12 < month)
   \<and> (\<forall>e. days_in_month month year = Inl e \<longrightarrow> (\<exists>msg. e = ValueError msg))"
  by (auto simp: days_in_month_cases)

theorem days_in_month_table_witness:
  "days_in_month 1 2023 = Inr 31 \<and> days_in_month 11 2023 = Inr 30
   \<and> days_in_month 2 2024 = Inr 29 \<and> days_in_month 2 1900 = Inr 28
   \<and> days_in_month 13 2023 = Inl (ValueError ''Invalid month'')
   \<and> days_in_month 0 2023 = Inl (ValueError ''Invalid month'')
   \<and> days_in_month (- 2) 2024 = Inl (ValueError ''Invalid month'')"
  using days_in_month_table [of 1 2023] days_in_month_table [of 11 2023]
    days_in_month_table [of 2 2024] days_in_month_table [of 2 1900]
    days_in_month_table [of 13 2023] days_in_month_table [of 0 2023]
    days_in_month_table [of "- 2" 2024]
  by (simp add: days_in_month_def leap_year_def)

section \<open>Construction\<close>

text \<open>When the constructor returns an instance, and which one.\<close>

lemma Date_init_Inr_iff:
  "Date_init day month year = Inr self \<longleftrightarrow>
     day = IntInst (self_day self) \<and> month = IntInst (self_month self)
     \<and> year = IntInst (self_year self)
     \<and> 1 \<le> int_of (self_year self)
     \<and> 1 \<le> int_of (self_month self) \<and> int_of (self_month self) \<le> 12
     \<and> (\<exists>n. days_in_month (int_of (self_month self)) (int_of (self_year self)) = Inr n
            \<and> 1 \<le> int_of (self_day self) \<and> int_of (self_day self) \<le> n)"
proof (cases day; cases month; cases year)
  fix d m y
  assume eq: "day = IntInst d" "month = IntInst m" "year = IntInst y"
  show ?thesis
  proof (cases "days_in_month (int_of m) (int_of y)")
    case (Inl e)
    then have "int_of m < 1 \<or> 12 < int_of m"
      by (simp add: days_in_month_Inl)
    with Inl show ?thesis
      unfolding Date_init_def eq by (cases self) auto
  next
    case (Inr n)
    from days_in_month_Inr [OF Inr] Inr show ?thesis
      unfolding Date_init_def eq by (cases self) auto
  qed
qed (simp_all add: Date_init_def)

text \<open>
  C1. Every instance that the constructor returns holds the three objects it was given,
  and they satisfy the validity invariant: the year is at least 1, the month lies in
  1..12, and the day lies between 1 and the length of that month in that year. So no
  instance with an invalid triple exists after a successful construction.
\<close>

theorem Date_init_invariant:
  "Date_init day month year = Inr self \<Longrightarrow>
     day = IntInst (self_day self) \<and> month = IntInst (self_month self)
     \<and> year = IntInst (self_year self)
     \<and> 1 \<le> int_of (self_year self)
     \<and> 1 \<le> int_of (self_month self) \<and> int_of (self_month self) \<le> 12
     \<and> (\<exists>n. days_in_month (int_of (self_month self)) (int_of (self_year self)) = Inr n
            \<and> 1 \<le> int_of (self_day self) \<and> int_of (self_day self) \<le> n)"
  by (simp only: Date_init_Inr_iff)

theorem Date_init_invariant_witness:
  "Date_init (py_int 29) (py_int 2) (py_int 2020)
     = Inr \<lparr>self_day = IntObj 29, self_month = IntObj 2, self_year = IntObj 2020\<rparr>
   \<and> (\<exists>n. days_in_month 2 2020 = Inr n \<and> 29 \<le> n)"
proof -
  have c: "Date_init (py_int 29) (py_int 2) (py_int 2020)
     = Inr \<lparr>self_day = IntObj 29, self_month = IntObj 2, self_year = IntObj 2020\<rparr>"
    by (simp add: Date_init_def days_in_month_def leap_year_def)
  from Date_init_invariant [OF c] show ?thesis
    using c by simp
qed

text \<open>A \<open>TypeError\<close> is raised exactly when one of the three arguments is no \<open>int\<close>.\<close>

lemma Date_init_TypeError_iff:
  "(\<exists>msg. Date_init day month year = Inl (TypeError msg)) \<longleftrightarrow>
     \<not> (isinstance_int day \<and> isinstance_int month \<and> isinstance_int year)"
  unfolding Date_init_def
  by (cases day; cases month; cases year)
     (simp_all split: sum.splits add: days_in_month_Inl)

text \<open>
  C4. The constructor checks in a fixed order and raises at the first check that fails:
  the type of the day, of the month, of the year (a \<open>TypeError\<close> naming the field), then
  the range of the year, of the month and of the day (a \<open>ValueError\<close>); it returns the
  instance when all six pass. A \<open>TypeError\<close> is raised whenever an argument is not an
  integer, whatever the values of the others, so type errors come before all range
  errors.
\<close>

theorem Date_init_check_order:
  "(\<not> isinstance_int day \<longrightarrow>
      Date_init day month year = Inl (TypeError ''Day cannot be a non-integer number!''))
   \<and> (isinstance_int day \<and> \<not> isinstance_int month \<longrightarrow>
      Date_init day month year = Inl (TypeError ''Month cannot be a non-integer number!''))
   \<and> (isinstance_int day \<and> isinstance_int month \<and> \<not> isinstance_int year \<longrightarrow>
      Date_init day month year = Inl (TypeError ''Year cannot be a non-integer number!''))
   \<and> (day = IntInst d \<and> month = IntInst m \<and> year = IntInst y \<and> int_of y < 1 \<longrightarrow>
      Date_init day month year
        = Inl (ValueError ''There is no such thing as a negative year...''))
   \<and> (day = IntInst d \<and> month = IntInst m \<and> year = IntInst y \<and> 1 \<le> int_of y
        \<and> (int_of m < 1 \<or> 12 < int_of m) \<longrightarrow>
      Date_init day month year = Inl (ValueError ''Only 12 months.''))
   \<and> (day = IntInst d \<and> month = IntInst m \<and> year = IntInst y \<and> 1 \<le> int_of y
        \<and> 1 \<le> int_of m \<and> int_of m \<le> 12
        \<and> days_in_month (int_of m) (int_of y) = Inr n
        \<and> (int_of d < 1 \<or> n < int_of d) \<longrightarrow>
      Date_init day month year = Inl (ValueError (day_message d m y)))
   \<and> (day = IntInst d \<and> month = IntInst m \<and> year = IntInst y \<and> 1 \<le> int_of y
        \<and> 1 \<le> int_of m \<and> int_of m \<le> 12
        \<and> days_in_month (int_of m) (int_of y) = Inr n
        \<and> 1 \<le> int_of d \<and> int_of d \<le> n \<longrightarrow>
      Date_init day month year = Inr \<lparr>self_day = d, self_month = m, self_year = y\<rparr>)
   \<and> ((\<exists>msg. Date_init day month year = Inl (TypeError msg)) \<longleftrightarrow>
        \<not> (isinstance_int day \<and> isinstance_int month \<and> isinstance_int year))"
proof (intro conjI)
  show "(\<exists>msg. Date_init day month year = Inl (TypeError msg)) \<longleftrightarrow>
        \<not> (isinstance_int day \<and> isinstance_int month \<and> isinstance_int year)"
    by (rule Date_init_TypeError_iff)
qed (cases day; cases month; cases year; simp add: Date_init_def; fail)+

theorem Date_init_check_order_witness:
  "Date_init (NonInt ''3.5'') (py_int 13) (py_int 0)
     = Inl (TypeError ''Day cannot be a non-integer number!'')
   \<and> Date_init (py_int 0) (NonInt ''None'') (NonInt ''2.0'')
     = Inl (TypeError ''Month cannot be a non-integer number!'')
   \<and> Date_init (py_int 0) (py_int 13) (NonInt ''None'')
     = Inl (TypeError ''Year cannot be a non-integer number!'')
   \<and> Date_init (py_int 0) (py_int 13) (py_int 0)
     = Inl (ValueError ''There is no such thing as a negative year...'')
   \<and> Date_init (py_int 0) (py_int 13) (py_int 1)
     = Inl (ValueError ''Only 12 months.'')
   \<and> Date_init (py_int 31) (py_int 2) (py_int 2020)
     = Inl (ValueError ''Day 31 is not valid for month 2 and year 2020.'')
   \<and> Date_init (py_int 29) (py_int 2) (py_int 2019)
     = Inl (ValueError ''Day 29 is not valid for month 2 and year 2019.'')
   \<and> Date_init (py_int 29) (py_int 2) (py_int 2020)
     = Inr \<lparr>self_day = IntObj 29, self_month = IntObj 2, self_year = IntObj 2020\<rparr>"
proof -
  have feb: "days_in_month 2 2020 = Inr 29" "days_in_month 2 2019 = Inr 28"
    by (simp_all add: days_in_month_def leap_year_def)
  have msg: "day_message (IntObj 31) (IntObj 2) (IntObj 2020)
               = ''Day 31 is not valid for month 2 and year 2020.''"
       "day_message (IntObj 29) (IntObj 2) (IntObj 2019)
               = ''Day 29 is not valid for month 2 and year 2019.''"
    by code_simp+
  show ?thesis
    using Date_init_check_order [of "NonInt ''3.5''" "py_int 13" "py_int 0"]
      Date_init_check_order [of "py_int 0" "NonInt ''None''" "NonInt ''2.0''"]
      Date_init_check_order [of "py_int 0" "py_int 13" "NonInt ''None''"]
      Date_init_check_order [of "py_int 0" "py_int 13" "py_int 0" "IntObj 0" "IntObj 13" "IntObj 0"]
      Date_init_check_order [of "py_int 0" "py_int 13" "py_int 1" "IntObj 0" "IntObj 13" "IntObj 1"]
      Date_init_check_order [of "py_int 31" "py_int 2" "py_int 2020" "IntObj 31" "IntObj 2" "IntObj 2020" 29]
      Date_init_check_order [of "py_int 29" "py_int 2" "py_int 2019" "IntObj 29" "IntObj 2" "IntObj 2019" 28]
      Date_init_check_order [of "py_int 29" "py_int 2" "py_int 2020" "IntObj 29" "IntObj 2" "IntObj 2020" 29]
    by (simp add: feb msg)
qed

section \<open>Day of the year\<close>

lemma slice_to_months:
  "1 \<le> m \<Longrightarrow> m \<le> 12 \<Longrightarrow>
   slice_to [a1, a2, a3, a4, a5, a6, a7, a8, a9, a10, a11, a12 :: int] (m - 1)
     = take (nat (m - 1)) [a1, a2, a3, a4, a5, a6, a7, a8, a9, a10, a11, a12]"
  by (simp add: slice_to_def)

lemma month_values:
  "1 \<le> m \<Longrightarrow> m \<le> 12 \<Longrightarrow> m \<in> {1, 2, 3, 4, 5, 6, 7, 8, 9, 10, 11, 12 :: int}"
  by (simp; arith)

lemma day_of_year_prefix:
  assumes "1 \<le> int_of (self_month self)" "int_of (self_month self) \<le> 12"
  shows "\<exists>ns. map (\<lambda>k. days_in_month k (int_of (self_year self)))
                 [1 .. int_of (self_month self) - 1] = map Inr ns
           \<and> day_of_year self = sum_list ns + int_of (self_day self)
           \<and> 0 \<le> sum_list ns
           \<and> (\<forall>n. days_in_month (int_of (self_month self)) (int_of (self_year self)) = Inr n
                 \<longrightarrow> sum_list ns + n
                       \<le> (if leap_year (int_of (self_year self)) then 366 else 365))"
proof -
  define L :: int where "L = (if leap_year (int_of (self_year self)) then 29 else 28)"
  define ns where
    "ns = take (nat (int_of (self_month self) - 1))
            [31, L, 31, 30, 31, 30, 31, 31, 30, 31, 30, 31]"
  have doy: "day_of_year self = sum_list ns + int_of (self_day self)"
    using assms unfolding day_of_year_def L_def ns_def Let_def
    by (simp only: slice_to_months)
  have dim: "days_in_month k (int_of (self_year self)) =
     (if k < 1 \<or> 12 < k then Inl (ValueError ''Invalid month'')
      else if k = 2 then Inr L
      else if k \<in> {4, 6, 9, 11} then Inr 30 else Inr 31)" for k
    unfolding L_def by (simp add: days_in_month_cases)
  have Lb: "28 \<le> L" "L + 337 \<le> (if leap_year (int_of (self_year self)) then 366 else 365)"
    unfolding L_def by simp_all
  have "map (\<lambda>k. days_in_month k (int_of (self_year self)))
                 [1 .. int_of (self_month self) - 1] = map Inr ns
           \<and> 0 \<le> sum_list ns
           \<and> (\<forall>n. days_in_month (int_of (self_month self)) (int_of (self_year self)) = Inr n
                 \<longrightarrow> sum_list ns + n
                       \<le> (if leap_year (int_of (self_year self)) then 366 else 365))"
    using month_values [OF assms] Lb unfolding ns_def
    by (elim insertE emptyE; simp add: dim upto_rec1)
  with doy show ?thesis by blast
qed

text \<open>
  C5. For every constructed instance, \<open>day_of_year\<close> is the sum of
  \<open>days_in_month(k, year)\<close> over the months \<open>k\<close> before the stored month, plus the
  stored day; it lies between 1 and 365, or 366 in a leap year. In particular it is 326
  for 22/11/2002, 1 for 01/01/2000, 366 for 31/12/2000 and 365 for 31/12/2001.
\<close>

theorem day_of_year_ordinal:
  "(\<forall>day month year self. Date_init day month year = Inr self \<longrightarrow>
      (\<exists>ns. map (\<lambda>k. days_in_month k (int_of (self_year self)))
                [1 .. int_of (self_month self) - 1] = map Inr ns
            \<and> day_of_year self = sum_list ns + int_of (self_day self))
      \<and> 1 \<le> day_of_year self
      \<and> day_of_year self \<le> (if leap_year (int_of (self_year self)) then 366 else 365))
   \<and> map_sum id day_of_year (Date_init (py_int 22) (py_int 11) (py_int 2002)) = Inr 326
   \<and> map_sum id day_of_year (Date_init (py_int 1) (py_int 1) (py_int 2000)) = Inr 1
   \<and> map_sum id day_of_year (Date_init (py_int 31) (py_int 12) (py_int 2000)) = Inr 366
   \<and> map_sum id day_of_year (Date_init (py_int 31) (py_int 12) (py_int 2001)) = Inr 365"
proof (intro conjI allI impI)
  fix day month year self
  assume "Date_init day month year = Inr self"
  then obtain n where
    m: "1 \<le> int_of (self_month self)" "int_of (self_month self) \<le> 12" and
    n: "days_in_month (int_of (self_month self)) (int_of (self_year self)) = Inr n" and
    d: "1 \<le> int_of (self_day self)" "int_of (self_day self) \<le> n"
    unfolding Date_init_Inr_iff by blast
  from day_of_year_prefix [OF m] obtain ns where
    ns: "map (\<lambda>k. days_in_month k (int_of (self_year self)))
           [1 .. int_of (self_month self) - 1] = map Inr ns"
        "day_of_year self = sum_list ns + int_of (self_day self)"
        "0 \<le> sum_list ns"
        "\<forall>n. days_in_month (int_of (self_month self)) (int_of (self_year self)) = Inr n
                 \<longrightarrow> sum_list ns + n
                       \<le> (if leap_year (int_of (self_year self)) then 366 else 365)"
    by blast
  from ns(1,2) show "\<exists>ns. map (\<lambda>k. days_in_month k (int_of (self_year self)))
                [1 .. int_of (self_month self) - 1] = map Inr ns
            \<and> day_of_year self = sum_list ns + int_of (self_day self)"
    by blast
  from ns(2,3) d(1) show "1 \<le> day_of_year self" by simp
  from ns(4) n have "sum_list ns + n
      \<le> (if leap_year (int_of (self_year self)) then 366 else 365)"
    by blast
  with ns(2) d(2)
  show "day_of_year self \<le> (if leap_year (int_of (self_year self)) then 366 else 365)"
    by (simp split: if_splits)
qed (simp_all add: Date_init_def days_in_month_def leap_year_def day_of_year_def slice_to_def)

theorem day_of_year_ordinal_witness:
  "Date_init (py_int 29) (py_int 2) (py_int 2020)
     = Inr \<lparr>self_day = IntObj 29, self_month = IntObj 2, self_year = IntObj 2020\<rparr>
   \<and> (\<exists>ns. map (\<lambda>k. days_in_month k 2020) [1 .. 1] = map Inr ns
          \<and> day_of_year \<lparr>self_day = IntObj 29, self_month = IntObj 2, self_year = IntObj 2020\<rparr>
              = sum_list ns + 29)
   \<and> day_of_year \<lparr>self_day = IntObj 29, self_month = IntObj 2, self_year = IntObj 2020\<rparr> = 60
   \<and> leap_year 2020"
proof -
  have c: "Date_init (py_int 29) (py_int 2) (py_int 2020)
     = Inr \<lparr>self_day = IntObj 29, self_month = IntObj 2, self_year = IntObj 2020\<rparr>"
    by (simp add: Date_init_def days_in_month_def leap_year_def)
  have v: "day_of_year \<lparr>self_day = IntObj 29, self_month = IntObj 2, self_year = IntObj 2020\<rparr> = 60"
    "leap_year 2020"
    by (simp_all add: leap_year_def day_of_year_def slice_to_def)
  from day_of_year_ordinal c
  have "\<exists>ns. map (\<lambda>k. days_in_month k
                 (int_of (self_year \<lparr>self_day = IntObj 29, self_month = IntObj 2, self_year = IntObj 2020\<rparr>)))
                [1 .. int_of (self_month \<lparr>self_day = IntObj 29, self_month = IntObj 2, self_year = IntObj 2020\<rparr>) - 1]
                  = map Inr ns
            \<and> day_of_year \<lparr>self_day = IntObj 29, self_month = IntObj 2, self_year = IntObj 2020\<rparr>
               = sum_list ns + int_of (self_day \<lparr>self_day = IntObj 29, self_month = IntObj 2, self_year = IntObj 2020\<rparr>)"
    by blast
  then show ?thesis
    using c v by simp
qed

section \<open>Equality and ordering\<close>

lemma tuple_lt_lex:
  "tuple_lt (a1, a2, a3) (b1, b2, b3) \<longleftrightarrow>
     int_of a1 < int_of b1
     \<or> int_of a1 = int_of b1
        \<and> (int_of a2 < int_of b2 \<or> int_of a2 = int_of b2 \<and> int_of a3 < int_of b3)"
  by auto

lemma tuple_gt_conv: "tuple_gt (a1, a2, a3) (b1, b2, b3) = tuple_lt (b1, b2, b3) (a1, a2, a3)"
  by auto

lemma tuple_eq_rev:
  "tuple_eq (a3, a2, a1) (b3, b2, b1) = tuple_eq (a1, a2, a3) (b1, b2, b3)"
  by auto

lemma tuple_lt_trans:
  "tuple_lt (a1, a2, a3) (b1, b2, b3) \<Longrightarrow> tuple_lt (b1, b2, b3) (c1, c2, c3)
     \<Longrightarrow> tuple_lt (a1, a2, a3) (c1, c2, c3)"
  unfolding tuple_lt_lex by linarith

lemma tuple_trichotomy:
  "(tuple_lt (a1, a2, a3) (b1, b2, b3) \<and> \<not> tuple_eq (a1, a2, a3) (b1, b2, b3)
      \<and> \<not> tuple_lt (b1, b2, b3) (a1, a2, a3))
   \<or> (\<not> tuple_lt (a1, a2, a3) (b1, b2, b3) \<and> tuple_eq (a1, a2, a3) (b1, b2, b3)
      \<and> \<not> tuple_lt (b1, b2, b3) (a1, a2, a3))
   \<or> (\<not> tuple_lt (a1, a2, a3) (b1, b2, b3) \<and> \<not> tuple_eq (a1, a2, a3) (b1, b2, b3)
      \<and> tuple_lt (b1, b2, b3) (a1, a2, a3))"
  unfolding tuple_lt_lex tuple_eq.simps by linarith

text \<open>
  C7. On constructed instances the comparisons form a strict total order keyed on
  (year, month, day): exactly one of \<open>a < b\<close>, \<open>a == b\<close>, \<open>a > b\<close> holds,
  \<open><\<close> is transitive, \<open><\<close> is the lexicographic order of the three keys, \<open>>\<close>
  is its converse and \<open>==\<close> is equality of the three keys.
\<close>

theorem Date_order_strict_total:
  assumes "Date_init d1 m1 y1 = Inr a" and "Date_init d2 m2 y2 = Inr b"
    and "Date_init d3 m3 y3 = Inr c"
  shows "((Date_lt a (DateObj b) \<and> \<not> Date_eq a (DateObj b) \<and> \<not> Date_gt a (DateObj b))
          \<or> (\<not> Date_lt a (DateObj b) \<and> Date_eq a (DateObj b) \<and> \<not> Date_gt a (DateObj b))
          \<or> (\<not> Date_lt a (DateObj b) \<and> \<not> Date_eq a (DateObj b) \<and> Date_gt a (DateObj b)))
       \<and> (Date_lt a (DateObj b) \<and> Date_lt b (DateObj c) \<longrightarrow> Date_lt a (DateObj c))
       \<and> (Date_lt a (DateObj b) \<longleftrightarrow>
            int_of (self_year a) < int_of (self_year b)
            \<or> int_of (self_year a) = int_of (self_year b)
               \<and> (int_of (self_month a) < int_of (self_month b)
                   \<or> int_of (self_month a) = int_of (self_month b)
                      \<and> int_of (self_day a) < int_of (self_day b)))
       \<and> (Date_gt a (DateObj b) \<longleftrightarrow> Date_lt b (DateObj a))
       \<and> (Date_eq a (DateObj b) \<longleftrightarrow>
            int_of (self_year a) = int_of (self_year b)
            \<and> int_of (self_month a) = int_of (self_month b)
            \<and> int_of (self_day a) = int_of (self_day b))"
proof (intro conjI)
  show "(Date_lt a (DateObj b) \<and> \<not> Date_eq a (DateObj b) \<and> \<not> Date_gt a (DateObj b))
          \<or> (\<not> Date_lt a (DateObj b) \<and> Date_eq a (DateObj b) \<and> \<not> Date_gt a (DateObj b))
          \<or> (\<not> Date_lt a (DateObj b) \<and> \<not> Date_eq a (DateObj b) \<and> Date_gt a (DateObj b))"
    unfolding Date_lt_def Date_gt_def Date_eq_def operand.case tuple_gt_conv
      tuple_eq_rev [of "self_day a" "self_month a" "self_year a"]
    by (rule tuple_trichotomy)
  show "Date_lt a (DateObj b) \<and> Date_lt b (DateObj c) \<longrightarrow> Date_lt a (DateObj c)"
    unfolding Date_lt_def operand.case by (blast intro: tuple_lt_trans)
  show "Date_lt a (DateObj b) \<longleftrightarrow>
            int_of (self_year a) < int_of (self_year b)
            \<or> int_of (self_year a) = int_of (self_year b)
               \<and> (int_of (self_month a) < int_of (self_month b)
                   \<or> int_of (self_month a) = int_of (self_month b)
                      \<and> int_of (self_day a) < int_of (self_day b))"
    unfolding Date_lt_def operand.case by (rule tuple_lt_lex)
  show "Date_gt a (DateObj b) \<longleftrightarrow> Date_lt b (DateObj a)"
    unfolding Date_lt_def Date_gt_def operand.case by (rule tuple_gt_conv)
  show "Date_eq a (DateObj b) \<longleftrightarrow>
            int_of (self_year a) = int_of (self_year b)
            \<and> int_of (self_month a) = int_of (self_month b)
            \<and> int_of (self_day a) = int_of (self_day b)"
    unfolding Date_eq_def operand.case by auto
qed

theorem Date_order_strict_total_witness:
  "Date_init (py_int 3) (py_int 11) (py_int 1986)
     = Inr \<lparr>self_day = IntObj 3, self_month = IntObj 11, self_year = IntObj 1986\<rparr>
   \<and> Date_init (py_int 22) (py_int 11) (py_int 2002)
     = Inr \<lparr>self_day = IntObj 22, self_month = IntObj 11, self_year = IntObj 2002\<rparr>
   \<and> Date_init (py_int 28) (py_int 9) (py_int 2007)
     = Inr \<lparr>self_day = IntObj 28, self_month = IntObj 9, self_year = IntObj 2007\<rparr>
   \<and> Date_lt \<lparr>self_day = IntObj 3, self_month = IntObj 11, self_year = IntObj 1986\<rparr>
        (DateObj \<lparr>self_day = IntObj 22, self_month = IntObj 11, self_year = IntObj 2002\<rparr>)
   \<and> Date_lt \<lparr>self_day = IntObj 22, self_month = IntObj 11, self_year = IntObj 2002\<rparr>
        (DateObj \<lparr>self_day = IntObj 28, self_month = IntObj 9, self_year = IntObj 2007\<rparr>)
   \<and> Date_lt \<lparr>self_day = IntObj 3, self_month = IntObj 11, self_year = IntObj 1986\<rparr>
        (DateObj \<lparr>self_day = IntObj 28, self_month = IntObj 9, self_year = IntObj 2007\<rparr>)
   \<and> \<not> Date_eq \<lparr>self_day = IntObj 3, self_month = IntObj 11, self_year = IntObj 1986\<rparr>
        (DateObj \<lparr>self_day = IntObj 22, self_month = IntObj 11, self_year = IntObj 2002\<rparr>)
   \<and> \<not> Date_gt \<lparr>self_day = IntObj 3, self_month = IntObj 11, self_year = IntObj 1986\<rparr>
        (DateObj \<lparr>self_day = IntObj 22, self_month = IntObj 11, self_year = IntObj 2002\<rparr>)"
proof -
  have a: "Date_init (py_int 3) (py_int 11) (py_int 1986)
     = Inr \<lparr>self_day = IntObj 3, self_month = IntObj 11, self_year = IntObj 1986\<rparr>"
    and b: "Date_init (py_int 22) (py_int 11) (py_int 2002)
     = Inr \<lparr>self_day = IntObj 22, self_month = IntObj 11, self_year = IntObj 2002\<rparr>"
    and c: "Date_init (py_int 28) (py_int 9) (py_int 2007)
     = Inr \<lparr>self_day = IntObj 28, self_month = IntObj 9, self_year = IntObj 2007\<rparr>"
    by (simp_all add: Date_init_def days_in_month_def)
  have lt: "Date_lt \<lparr>self_day = IntObj 3, self_month = IntObj 11, self_year = IntObj 1986\<rparr>
        (DateObj \<lparr>self_day = IntObj 22, self_month = IntObj 11, self_year = IntObj 2002\<rparr>)"
    "Date_lt \<lparr>self_day = IntObj 22, self_month = IntObj 11, self_year = IntObj 2002\<rparr>
        (DateObj \<lparr>self_day = IntObj 28, self_month = IntObj 9, self_year = IntObj 2007\<rparr>)"
    by (simp_all add: Date_lt_def)
  from Date_order_strict_total [OF a b c] lt
  have "Date_lt \<lparr>self_day = IntObj 3, self_month = IntObj 11, self_year = IntObj 1986\<rparr>
        (DateObj \<lparr>self_day = IntObj 28, self_month = IntObj 9, self_year = IntObj 2007\<rparr>)"
    and "\<not> Date_eq \<lparr>self_day = IntObj 3, self_month = IntObj 11, self_year = IntObj 1986\<rparr>
        (DateObj \<lparr>self_day = IntObj 22, self_month = IntObj 11, self_year = IntObj 2002\<rparr>)"
    and "\<not> Date_gt \<lparr>self_day = IntObj 3, self_month = IntObj 11, self_year = IntObj 1986\<rparr>
        (DateObj \<lparr>self_day = IntObj 22, self_month = IntObj 11, self_year = IntObj 2002\<rparr>)"
    by simp_all
  with a b c lt show ?thesis
    by (intro conjI)
qed

text \<open>
  C8. For a constructed instance \<open>a\<close> and any right operand, an instance of \<open>Date\<close>
  or not, \<open>a <= b\<close> holds exactly when \<open>a < b\<close> or \<open>a == b\<close> holds.
\<close>

theorem Date_le_lt_or_eq:
  "Date_init d m y = Inr a \<Longrightarrow>
     Date_le a other \<longleftrightarrow> Date_lt a other \<or> Date_eq a other"
  unfolding Date_le_def Date_lt_def Date_eq_def
  by (cases other) auto

theorem Date_le_lt_or_eq_witness:
  "Date_init (py_int 1) (py_int 1) (py_int 2000)
     = Inr \<lparr>self_day = IntObj 1, self_month = IntObj 1, self_year = IntObj 2000\<rparr>
   \<and> Date_le \<lparr>self_day = IntObj 1, self_month = IntObj 1, self_year = IntObj 2000\<rparr>
        (DateObj \<lparr>self_day = BoolObj True, self_month = IntObj 1, self_year = IntObj 2000\<rparr>)
   \<and> Date_eq \<lparr>self_day = IntObj 1, self_month = IntObj 1, self_year = IntObj 2000\<rparr>
        (DateObj \<lparr>self_day = BoolObj True, self_month = IntObj 1, self_year = IntObj 2000\<rparr>)
   \<and> Date_le \<lparr>self_day = IntObj 1, self_month = IntObj 1, self_year = IntObj 2000\<rparr>
        (DateObj \<lparr>self_day = IntObj 2, self_month = IntObj 1, self_year = IntObj 2000\<rparr>)
   \<and> \<not> Date_le \<lparr>self_day = IntObj 1, self_month = IntObj 1, self_year = IntObj 2000\<rparr>
        (DateObj \<lparr>self_day = IntObj 31, self_month = IntObj 12, self_year = IntObj 1999\<rparr>)
   \<and> \<not> Date_le \<lparr>self_day = IntObj 1, self_month = IntObj 1, self_year = IntObj 2000\<rparr>
        (OtherObj (py_int 20000101))"
proof -
  have a: "Date_init (py_int 1) (py_int 1) (py_int 2000)
     = Inr \<lparr>self_day = IntObj 1, self_month = IntObj 1, self_year = IntObj 2000\<rparr>"
    by (simp add: Date_init_def days_in_month_def)
  have "Date_eq \<lparr>self_day = IntObj 1, self_month = IntObj 1, self_year = IntObj 2000\<rparr>
        (DateObj \<lparr>self_day = BoolObj True, self_month = IntObj 1, self_year = IntObj 2000\<rparr>)"
    and "Date_lt \<lparr>self_day = IntObj 1, self_month = IntObj 1, self_year = IntObj 2000\<rparr>
        (DateObj \<lparr>self_day = IntObj 2, self_month = IntObj 1, self_year = IntObj 2000\<rparr>)"
    and "\<not> Date_lt \<lparr>self_day = IntObj 1, self_month = IntObj 1, self_year = IntObj 2000\<rparr>
        (DateObj \<lparr>self_day = IntObj 31, self_month = IntObj 12, self_year = IntObj 1999\<rparr>)"
    and "\<not> Date_eq \<lparr>self_day = IntObj 1, self_month = IntObj 1, self_year = IntObj 2000\<rparr>
        (DateObj \<lparr>self_day = IntObj 31, self_month = IntObj 12, self_year = IntObj 1999\<rparr>)"
    and "\<not> Date_lt \<lparr>self_day = IntObj 1, self_month = IntObj 1, self_year = IntObj 2000\<rparr>
        (OtherObj (py_int 20000101))"
    and "\<not> Date_eq \<lparr>self_day = IntObj 1, self_month = IntObj 1, self_year = IntObj 2000\<rparr>
        (OtherObj (py_int 20000101))"
    by (simp_all add: Date_eq_def Date_lt_def)
  then show ?thesis
    using a Date_le_lt_or_eq [OF a] by simp
qed

text \<open>
  C9. Against a right operand that is not an instance of \<open>Date\<close>, each of \<open>==\<close>,
  \<open><\<close>, \<open>>\<close> and \<open><=\<close> returns \<open>False\<close>: the four methods return a value on
  this path, and never \<open>True\<close>.
\<close>

theorem Date_non_Date_false:
  "Date_init d m y = Inr a \<Longrightarrow>
     \<not> Date_eq a (OtherObj v) \<and> \<not> Date_lt a (OtherObj v)
     \<and> \<not> Date_gt a (OtherObj v) \<and> \<not> Date_le a (OtherObj v)"
  by (simp add: Date_eq_def Date_lt_def Date_gt_def Date_le_def)

theorem Date_non_Date_false_witness:
  "Date_init (py_int 28) (py_int 9) (py_int 2007)
     = Inr \<lparr>self_day = IntObj 28, self_month = IntObj 9, self_year = IntObj 2007\<rparr>
   \<and> \<not> Date_eq \<lparr>self_day = IntObj 28, self_month = IntObj 9, self_year = IntObj 2007\<rparr>
        (OtherObj (NonInt ''28/09/2007''))
   \<and> \<not> Date_lt \<lparr>self_day = IntObj 28, self_month = IntObj 9, self_year = IntObj 2007\<rparr>
        (OtherObj (py_int 20070928))
   \<and> \<not> Date_gt \<lparr>self_day = IntObj 28, self_month = IntObj 9, self_year = IntObj 2007\<rparr>
        (OtherObj (py_int 0))
   \<and> \<not> Date_le \<lparr>self_day = IntObj 28, self_month = IntObj 9, self_year = IntObj 2007\<rparr>
        (OtherObj (NonInt ''None''))"
proof -
  have a: "Date_init (py_int 28) (py_int 9) (py_int 2007)
     = Inr \<lparr>self_day = IntObj 28, self_month = IntObj 9, self_year = IntObj 2007\<rparr>"
    by (simp add: Date_init_def days_in_month_def)
  show ?thesis
    using a Date_non_Date_false [OF a, of "NonInt ''28/09/2007''"]
      Date_non_Date_false [OF a, of "py_int 20070928"]
      Date_non_Date_false [OF a, of "py_int 0"]
      Date_non_Date_false [OF a, of "NonInt ''None''"]
    by simp
qed

section \<open>Textual rendering\<close>

lemma digit_char_value: "k < 10 \<Longrightarrow> of_char (digit_char k) = 48 + k"
  by (simp add: digit_char_def)

lemma digit_char_inj: "i < 10 \<Longrightarrow> j < 10 \<Longrightarrow> digit_char i = digit_char j \<Longrightarrow> i = j"
proof -
  assume b: "i < 10" "j < 10" and e: "digit_char i = digit_char j"
  from e have "(of_char (digit_char i) :: nat) = of_char (digit_char j)"
    by (rule arg_cong)
  with b show "i = j"
    by (simp only: digit_char_value add_left_cancel)
qed

lemma digit_char_0: "digit_char 0 = CHR ''0''"
  by code_simp

lemma nat_of_digits_snoc:
  "nat_of_digits (cs @ [c]) = 10 * nat_of_digits cs + (of_char c - 48)"
  by (simp add: nat_of_digits_def)

lemma nat_of_digits_digits_of: "nat_of_digits (digits_of n) = n"
proof (induction n rule: digits_of.induct)
  case (1 n)
  show ?case
  proof (cases "n < 10")
    case True
    then show ?thesis
      by (simp add: digits_of.simps [of n] nat_of_digits_def digit_char_value)
  next
    case False
    with 1 have "nat_of_digits (digits_of (n div 10)) = n div 10" by simp
    with False show ?thesis
      by (simp add: digits_of.simps [of n] nat_of_digits_snoc digit_char_value)
  qed
qed

lemma digits_of_chars: "c \<in> set (digits_of n) \<Longrightarrow> \<exists>k<10. c = digit_char k"
proof (induction n rule: digits_of.induct)
  case (1 n)
  show ?case
  proof (cases "n < 10")
    case True
    with 1(2) show ?thesis
      by (auto simp: digits_of.simps [of n])
  next
    case False
    with 1(2) have "c \<in> set (digits_of (n div 10)) \<or> c = digit_char (n mod 10)"
      by (auto simp: digits_of.simps [of n])
    then show ?thesis
    proof
      assume "c \<in> set (digits_of (n div 10))"
      with 1(1) False show ?thesis by simp
    next
      assume "c = digit_char (n mod 10)"
      moreover have "n mod 10 < 10" by simp
      ultimately show ?thesis by blast
    qed
  qed
qed

lemma digits_of_nonempty: "digits_of n \<noteq> []"
  by (simp add: digits_of.simps [of n])

lemma digits_of_hd: "0 < n \<Longrightarrow> hd (digits_of n) \<noteq> CHR ''0''"
proof (induction n rule: digits_of.induct)
  case (1 n)
  show ?case
  proof (cases "n < 10")
    case True
    with 1(2) digit_char_inj [of n 0] show ?thesis
      by (auto simp: digits_of.simps [of n] digit_char_0 [symmetric])
  next
    case False
    with 1 have "hd (digits_of (n div 10)) \<noteq> CHR ''0''" by simp
    with False show ?thesis
      by (simp add: digits_of.simps [of n] digits_of_nonempty)
  qed
qed

lemma format_02d_two_digits:
  assumes "1 \<le> int_of x" "int_of x \<le> 99"
  shows "format_02d x
           = [digit_char (nat (int_of x) div 10), digit_char (nat (int_of x) mod 10)]"
proof -
  define n where "n = nat (int_of x)"
  have fmt: "format_02d x = replicate (2 - length (digits_of n)) CHR ''0'' @ digits_of n"
    using assms by (simp add: format_02d_def Let_def n_def)
  have "n < 100"
    using assms by (simp add: n_def)
  then have "n div 10 < 10"
    by arith
  then have small: "digits_of (n div 10) = [digit_char (n div 10)]"
    by (simp add: digits_of.simps [of "n div 10"])
  have "format_02d x = [digit_char (n div 10), digit_char (n mod 10)]"
  proof (cases "n < 10")
    case True
    then show ?thesis
      by (simp add: fmt digits_of.simps [of n] digit_char_0)
  next
    case False
    then show ?thesis
      by (simp add: fmt digits_of.simps [of n] small)
  qed
  then show ?thesis
    by (simp only: n_def)
qed


lemma Date_init_ranges:
  assumes "Date_init day month year = Inr self"
  shows "1 \<le> int_of (self_day self)" "int_of (self_day self) \<le> 99"
    "1 \<le> int_of (self_month self)" "int_of (self_month self) \<le> 99"
    "1 \<le> int_of (self_year self)"
proof -
  from assms obtain n where
    n: "days_in_month (int_of (self_month self)) (int_of (self_year self)) = Inr n"
      "int_of (self_day self) \<le> n"
    and r: "1 \<le> int_of (self_day self)" "1 \<le> int_of (self_month self)"
      "int_of (self_month self) \<le> 12" "1 \<le> int_of (self_year self)"
    unfolding Date_init_Inr_iff by blast
  from days_in_month_Inr [OF n(1)] n(2) have "int_of (self_day self) \<le> 99"
    by simp
  with r show "1 \<le> int_of (self_day self)" "int_of (self_day self) \<le> 99"
    "1 \<le> int_of (self_month self)" "int_of (self_month self) \<le> 99"
    "1 \<le> int_of (self_year self)"
    by simp_all
qed

lemma Date_str_two_digit_fields:
  assumes "Date_init day month year = Inr self"
  shows "Date_str self =
     [digit_char (nat (int_of (self_day self)) div 10),
      digit_char (nat (int_of (self_day self)) mod 10), CHR ''/'',
      digit_char (nat (int_of (self_month self)) div 10),
      digit_char (nat (int_of (self_month self)) mod 10), CHR ''/'']
     @ format_plain (self_year self)"
  using Date_init_ranges [OF assms]
  by (simp add: Date_str_def format_02d_two_digits)

text \<open>
  With a plain integer as the year, the rendering is the day in two digits, a slash, the
  month in two digits, a slash and the decimal digits of the year, which start with no
  zero and denote the year.
\<close>

lemma Date_str_decimal_year:
  assumes "Date_init day month (py_int y) = Inr self"
  shows "Date_str self =
     [digit_char (nat (int_of (self_day self)) div 10),
      digit_char (nat (int_of (self_day self)) mod 10), CHR ''/'',
      digit_char (nat (int_of (self_month self)) div 10),
      digit_char (nat (int_of (self_month self)) mod 10), CHR ''/'']
     @ digits_of (nat y)"
    and "hd (digits_of (nat y)) \<noteq> CHR ''0''"
    and "int (nat_of_digits (digits_of (nat y))) = y"
    and "\<forall>c \<in> set (digits_of (nat y)). \<exists>k<10. c = digit_char k"
proof -
  from assms have y: "self_year self = IntObj y"
    unfolding Date_init_Inr_iff by simp
  with Date_init_ranges(5) [OF assms] have pos: "1 \<le> y"
    by simp
  from Date_str_two_digit_fields [OF assms] y pos show "Date_str self =
     [digit_char (nat (int_of (self_day self)) div 10),
      digit_char (nat (int_of (self_day self)) mod 10), CHR ''/'',
      digit_char (nat (int_of (self_month self)) div 10),
      digit_char (nat (int_of (self_month self)) mod 10), CHR ''/'']
     @ digits_of (nat y)"
    by (simp add: str_int_def)
  from pos show "hd (digits_of (nat y)) \<noteq> CHR ''0''"
    by (simp add: digits_of_hd)
  from pos show "int (nat_of_digits (digits_of (nat y))) = y"
    by (simp add: nat_of_digits_digits_of)
  show "\<forall>c \<in> set (digits_of (nat y)). \<exists>k<10. c = digit_char k"
    by (blast dest: digits_of_chars)
qed

lemma two_digits_inj:
  assumes "i < 100" "j < 100"
    and "digit_char (i div 10) = digit_char (j div 10)"
    and "digit_char (i mod 10) = digit_char (j mod 10)"
  shows "i = j"
proof -
  from assms(1,2) have "i div 10 < 10" "j div 10 < 10"
    by arith+
  with assms(3) have "i div 10 = j div 10"
    by (blast intro: digit_char_inj)
  moreover from assms(4) have "i mod 10 = j mod 10"
    by (intro digit_char_inj) simp_all
  ultimately show ?thesis
    by (metis div_mult_mod_eq)
qed

lemma digits_of_not_True: "digits_of n \<noteq> ''True''"
proof
  assume "digits_of n = ''True''"
  then have "CHR ''T'' \<in> set (digits_of n)"
    by simp
  then obtain k where "k < 10" "CHR ''T'' = digit_char k"
    by (blast dest: digits_of_chars)
  then have "(of_char (CHR ''T'') :: nat) = 48 + k"
    by (simp add: digit_char_value)
  with \<open>k < 10\<close> show False
    by simp
qed

lemma format_plain_inj:
  assumes "1 \<le> int_of x" "1 \<le> int_of y" "format_plain x = format_plain y"
  shows "int_of x = int_of y"
proof (cases x; cases y)
  fix i j
  assume xy: "x = IntObj i" "y = IntObj j"
  with assms have "digits_of (nat i) = digits_of (nat j)"
    by (simp add: str_int_def)
  then have "nat_of_digits (digits_of (nat i)) = nat_of_digits (digits_of (nat j))"
    by simp
  with assms(1,2) xy show ?thesis
    by (simp add: nat_of_digits_digits_of)
next
  fix i b
  assume xy: "x = IntObj i" "y = BoolObj b"
  with assms have "digits_of (nat i) = ''True''"
    by (simp add: str_int_def split: if_splits)
  then show ?thesis
    by (simp add: digits_of_not_True)
next
  fix b j
  assume xy: "x = BoolObj b" "y = IntObj j"
  with assms have "digits_of (nat j) = ''True''"
    by (simp add: str_int_def split: if_splits)
  then show ?thesis
    by (simp add: digits_of_not_True)
next
  fix b c
  assume "x = BoolObj b" "y = BoolObj c"
  with assms show ?thesis
    by (simp split: if_splits)
qed

text \<open>
  Two constructed instances with the same rendering are equal. The converse needs the
  two years to be plain integers.
\<close>

lemma Date_str_injective:
  assumes a: "Date_init d1 m1 y1 = Inr a" and b: "Date_init d2 m2 y2 = Inr b"
    and s: "Date_str a = Date_str b"
  shows "Date_eq a (DateObj b)"
proof -
  note ra = Date_init_ranges [OF a] and rb = Date_init_ranges [OF b]
  from s have
    d: "digit_char (nat (int_of (self_day a)) div 10) = digit_char (nat (int_of (self_day b)) div 10)"
       "digit_char (nat (int_of (self_day a)) mod 10) = digit_char (nat (int_of (self_day b)) mod 10)"
    and m: "digit_char (nat (int_of (self_month a)) div 10) = digit_char (nat (int_of (self_month b)) div 10)"
       "digit_char (nat (int_of (self_month a)) mod 10) = digit_char (nat (int_of (self_month b)) mod 10)"
    and y: "format_plain (self_year a) = format_plain (self_year b)"
    unfolding Date_str_two_digit_fields [OF a] Date_str_two_digit_fields [OF b]
    by simp_all
  from ra(1,2) rb(1,2) have "nat (int_of (self_day a)) = nat (int_of (self_day b))"
    by (intro two_digits_inj d) simp_all
  with ra(1) rb(1) have "int_of (self_day a) = int_of (self_day b)"
    by simp
  moreover from ra(3,4) rb(3,4)
  have "nat (int_of (self_month a)) = nat (int_of (self_month b))"
    by (intro two_digits_inj m) simp_all
  with ra(3) rb(3) have "int_of (self_month a) = int_of (self_month b)"
    by simp
  moreover from ra(5) rb(5) y have "int_of (self_year a) = int_of (self_year b)"
    by (rule format_plain_inj)
  ultimately show ?thesis
    by (simp add: Date_eq_def)
qed

lemma format_02d_numeric: "int_of x = int_of y \<Longrightarrow> format_02d x = format_02d y"
  by (simp add: format_02d_def)

lemma Date_eq_same_str:
  assumes "Date_eq a (DateObj b)" "self_year a = IntObj i" "self_year b = IntObj j"
  shows "Date_str a = Date_str b"
  using assms
  by (simp add: Date_eq_def Date_str_def
        format_02d_numeric [of "self_day a" "self_day b"]
        format_02d_numeric [of "self_month a" "self_month b"])



end
